theory Spec2Isabelle
  imports Main "HOL-Library.Sublist"
begin

section \<open>Strings and formatting\<close>

text \<open>
  The script \<^verbatim>\<open>export_pdf.py\<close> converts a saved HTML page into a PDF: it locates a
  Chrome/Chromium binary, serves the page's directory over a local HTTP server, runs the
  browser headless with \<^verbatim>\<open>--print-to-pdf\<close> and shuts the server down.

  A Python \<^verbatim>\<open>str\<close> is modelled as a \<^typ>\<open>string\<close>: the list of the bytes of its
  file-system form (\<^verbatim>\<open>os.fsencode\<close>, UTF-8 with \<^verbatim>\<open>surrogateescape\<close>). For text
  these are the bytes of its UTF-8 form; a byte of a file name that is not UTF-8, which
  Python holds as a lone surrogate, is that byte. The separators the script and the
  library look for (\<^verbatim>\<open>/\<close>, \<^verbatim>\<open>.\<close>) are ASCII, and an ASCII byte never occurs inside
  a multi-byte UTF-8 sequence, so splitting and searching on bytes agrees with Python's
  on code points.
\<close>

text \<open>\<^verbatim>\<open>sep.join(parts)\<close>\<close>

fun str_join :: "string \<Rightarrow> string list \<Rightarrow> string" where
  "str_join sep [] = []"
| "str_join sep [x] = x"
| "str_join sep (x # y # ys) = x @ sep @ str_join sep (y # ys)"

text \<open>\<^verbatim>\<open>s.split(sep)\<close> for a one-character separator: every separator splits, empty pieces are kept.\<close>

fun str_split :: "char \<Rightarrow> string \<Rightarrow> string list" where
  "str_split sep [] = [[]]"
| "str_split sep (c # cs) =
     (if c = sep then [] # str_split sep cs
      else (case str_split sep cs of
              [] \<Rightarrow> [[c]]
            | w # ws \<Rightarrow> (c # w) # ws))"

text \<open>\<^verbatim>\<open>s.rfind(ch)\<close>: the index of the last occurrence, \<open>-1\<close> when there is none.\<close>

fun rfind :: "char \<Rightarrow> string \<Rightarrow> int" where
  "rfind ch [] = - 1"
| "rfind ch (c # cs) =
     (let r = rfind ch cs
      in if 0 \<le> r then r + 1 else if c = ch then 0 else - 1)"

text \<open>The decimal rendering of an integer inside an f-string, \<^verbatim>\<open>f"{n}"\<close>.\<close>

definition digit_char :: "nat \<Rightarrow> char" where
  "digit_char d = ''0123456789'' ! d"

fun nat_digits :: "nat \<Rightarrow> string" where
  "nat_digits n =
     (if n < 10 then [digit_char n] else nat_digits (n div 10) @ [digit_char (n mod 10)])"

declare nat_digits.simps [simp del]

definition format_int :: "int \<Rightarrow> string" where
  "format_int i = (if i < 0 then CHR ''-'' # nat_digits (nat (- i)) else nat_digits (nat i))"

section \<open>Errors\<close>

text \<open>
  The exceptions the script raises itself (\<^verbatim>\<open>FileNotFoundError\<close>, \<^verbatim>\<open>RuntimeError\<close>)
  carry their message. The others are raised inside the library and pass through the
  script: \<^verbatim>\<open>OSError\<close> by a file test or by \<^verbatim>\<open>subprocess.run\<close> (with the reason),
  \<^verbatim>\<open>UnicodeEncodeError\<close> by \<^verbatim>\<open>urllib.parse.quote\<close>, \<^verbatim>\<open>UnicodeDecodeError\<close> and
  (under \<^verbatim>\<open>check=True\<close>) \<^verbatim>\<open>CalledProcessError\<close> by \<^verbatim>\<open>subprocess.run\<close>,
  \<^verbatim>\<open>ValueError\<close> by \<^verbatim>\<open>with_suffix\<close>.
\<close>

datatype error =
    FileNotFoundError string
  | RuntimeError string
  | OSError string
  | UnicodeEncodeError
  | UnicodeDecodeError
  | ValueError
  | CalledProcessError int "string list"

section \<open>\<^verbatim>\<open>urllib.parse.quote\<close>\<close>

text \<open>
  \<^verbatim>\<open>quote(string, safe='/')\<close> returns an empty string as it is; any other string is
  encoded with \<^verbatim>\<open>string.encode('utf-8', 'strict')\<close> and the bytes are quoted by
  \<^verbatim>\<open>quote_from_bytes\<close>. The encoding raises \<^verbatim>\<open>UnicodeEncodeError\<close> on a lone
  surrogate, so it succeeds exactly when the bytes of the string are well-formed UTF-8
  (one of the byte patterns of the Unicode standard: no overlong form, no encoded
  surrogate, nothing above U+10FFFF).
\<close>

definition in_range :: "char \<Rightarrow> nat \<Rightarrow> nat \<Rightarrow> bool" where
  "in_range b lo hi \<longleftrightarrow> lo \<le> of_char b \<and> (of_char b :: nat) \<le> hi"

text \<open>
  A lead byte tells how many bytes follow it and the range of the first of them; the
  bytes after that one are in \<^verbatim>\<open>80..BF\<close>.
\<close>

definition utf8_lead :: "char \<Rightarrow> (nat \<times> nat \<times> nat) option" where
  "utf8_lead b =
     (if in_range b 0x00 0x7F then Some (0, 0x80, 0xBF)
      else if in_range b 0xC2 0xDF then Some (1, 0x80, 0xBF)
      else if in_range b 0xE0 0xEF then
        Some (2, if b = CHR 0xE0 then 0xA0 else 0x80, if b = CHR 0xED then 0x9F else 0xBF)
      else if in_range b 0xF0 0xF4 then
        Some (3, if b = CHR 0xF0 then 0x90 else 0x80, if b = CHR 0xF4 then 0x8F else 0xBF)
      else None)"

text \<open>
  Reading the bytes in order: \<open>pending\<close> bytes of the current sequence are still to
  come, the next of them within \<open>lo..hi\<close>.
\<close>

fun utf8_scan :: "nat \<Rightarrow> nat \<Rightarrow> nat \<Rightarrow> string \<Rightarrow> bool" where
  "utf8_scan pending lo hi [] = (pending = 0)"
| "utf8_scan pending lo hi (b # bs) =
     (if pending = 0 then
        (case utf8_lead b of
           None \<Rightarrow> False
         | Some (n, lo', hi') \<Rightarrow> utf8_scan n lo' hi' bs)
      else if in_range b lo hi then utf8_scan (pending - 1) 0x80 0xBF bs
      else False)"

definition utf8_wellformed :: "string \<Rightarrow> bool" where
  "utf8_wellformed s = utf8_scan 0 0x80 0xBF s"

text \<open>
  \<^verbatim>\<open>quote_from_bytes\<close> maps every byte: a byte of the always-safe set or of
  \<^verbatim>\<open>safe\<close> stays, any other byte \<open>b\<close> becomes \<^verbatim>\<open>'%{:02X}'.format(b)\<close>.
\<close>

definition always_safe :: string where
  "always_safe =
     ''ABCDEFGHIJKLMNOPQRSTUVWXYZabcdefghijklmnopqrstuvwxyz0123456789_.-~''"

definition hex_digit :: "nat \<Rightarrow> char" where
  "hex_digit d = ''0123456789ABCDEF'' ! d"

definition quoter :: "string \<Rightarrow> char \<Rightarrow> string" where
  "quoter safe b =
     (if b \<in> set (always_safe @ safe) then [b]
      else [CHR ''%'', hex_digit (of_char b div 16), hex_digit (of_char b mod 16)])"

definition quote_from_bytes :: "string \<Rightarrow> string \<Rightarrow> string" where
  "quote_from_bytes bs safe = concat (map (quoter safe) bs)"

definition quote :: "string \<Rightarrow> string \<Rightarrow> error + string" where
  "quote s safe =
     (if s = [] then Inr s
      else if utf8_wellformed s then Inr (quote_from_bytes s safe)
      else Inl UnicodeEncodeError)"

section \<open>\<^verbatim>\<open>pathlib\<close> paths (POSIX flavour)\<close>

text \<open>
  A \<^verbatim>\<open>pathlib.Path\<close> is its parsed form: the root (\<^verbatim>\<open>''\<close>, \<^verbatim>\<open>'/'\<close> or
  \<^verbatim>\<open>'//'\<close>) and the components after it. The drive is always empty on POSIX.
\<close>

datatype path = PurePath (root: string) (tail: "string list")

definition splitroot :: "string \<Rightarrow> string \<times> string" where
  "splitroot part =
     (if part \<noteq> [] \<and> hd part = CHR ''/'' then
        (let stripped_part = dropWhile (\<lambda>c. c = CHR ''/'') part
         in if length part - length stripped_part = 2 then (''//'', stripped_part)
            else (''/'', stripped_part))
      else ([], part))"

text \<open>\<^verbatim>\<open>pathlib.Path(s)\<close>: empty components and \<^verbatim>\<open>.\<close> components are dropped.\<close>

definition parse_path :: "string \<Rightarrow> path" where
  "parse_path s =
     (case splitroot s of
        (r, rel) \<Rightarrow> PurePath r (filter (\<lambda>x. x \<noteq> [] \<and> x \<noteq> ''.'') (str_split CHR ''/'' rel)))"

text \<open>\<^verbatim>\<open>str(p)\<close>\<close>

definition path_str :: "path \<Rightarrow> string" where
  "path_str p =
     (let s = root p @ str_join ''/'' (tail p) in if s = [] then ''.'' else s)"

text \<open>\<^verbatim>\<open>p.name\<close>, \<^verbatim>\<open>p.parent\<close>, \<^verbatim>\<open>p.suffix\<close>\<close>

definition path_name :: "path \<Rightarrow> string" where
  "path_name p = (if tail p = [] then [] else last (tail p))"

definition path_parent :: "path \<Rightarrow> path" where
  "path_parent p = (if tail p = [] then p else PurePath (root p) (butlast (tail p)))"

definition path_suffix :: "path \<Rightarrow> string" where
  "path_suffix p =
     (let name = path_name p; i = rfind CHR ''.'' name
      in if 0 < i \<and> i < int (length name) - 1 then drop (nat i) name else [])"

section \<open>The environment and the observable effects\<close>

text \<open>\<^verbatim>\<open>subprocess.CompletedProcess\<close> with captured text output.\<close>

record completed_process =
  returncode :: int
  stdout :: string
  stderr :: string

text \<open>
  What asking the operating system to run a command gives: the program could not be
  started (\<^verbatim>\<open>subprocess.run\<close> raises \<^verbatim>\<open>OSError\<close>, for instance when the file is not
  executable); it ran and ended with an exit status, but its captured output is not
  text in the locale's encoding (\<^verbatim>\<open>text=True\<close> makes \<^verbatim>\<open>subprocess.run\<close> raise
  \<^verbatim>\<open>UnicodeDecodeError\<close>); or it ran and ended, with its status and its output as text.
\<close>

datatype run_outcome =
    Not_started string
  | Undecodable int
  | Completed completed_process

text \<open>
  What the script asks of the operating system. The file tests of \<^verbatim>\<open>pathlib\<close>
  (\<^verbatim>\<open>Path.is_file\<close>, \<^verbatim>\<open>Path.exists\<close>) answer or raise: they turn a missing file into
  \<^verbatim>\<open>False\<close> and re-raise any other \<^verbatim>\<open>OSError\<close> (name too long, permission denied).
  \<^verbatim>\<open>expanduser\<close> and \<^verbatim>\<open>resolve\<close> give a path or raise (no home directory, a loop
  of symbolic links); \<^verbatim>\<open>resolve\<close> makes the path absolute and follows symbolic links.
  \<^verbatim>\<open>shutil.which\<close> gives a path or \<^verbatim>\<open>None\<close>. The kernel assigns the port of a
  listener bound to port 0. Creating that listener and its thread is taken to succeed.
\<close>

record env =
  is_file :: "path \<Rightarrow> error + bool"
  path_exists :: "path \<Rightarrow> error + bool"
  which :: "string \<Rightarrow> string option"
  expanduser :: "path \<Rightarrow> error + path"
  resolve :: "path \<Rightarrow> error + path"
  assigned_port :: nat
  execute :: "string list \<Rightarrow> run_outcome"

text \<open>
  The effects of a run, in order: the server thread starts serving a directory at an
  address, \<^verbatim>\<open>subprocess.run\<close> is called with a command, shutdown of the server at an
  address is requested, the thread is joined with a timeout in seconds.
\<close>

datatype event =
    Serving string "string \<times> nat"
  | Ran "string list"
  | Shutdown "string \<times> nat"
  | Joined nat

type_synonym trace = "event list"

section \<open>\<^verbatim>\<open>find_browser\<close>\<close>

text \<open>
  \<^verbatim>\<open>
  if explicit_path:
      browser_path = pathlib.Path(explicit_path)
      if browser_path.is_file() and browser_path.exists():
          return str(browser_path)
      raise FileNotFoundError(
          f"Browser binary not found at provided path: {browser_path}")
  for candidate in ("google-chrome", "chromium-browser", "chromium", "chrome", "msedge"):
      resolved = shutil.which(candidate)
      if resolved:
          return resolved
  raise FileNotFoundError(
      "No Chrome/Chromium executable found. Use --browser to point to an existing binary.")
  \<close>
  The loop and the \<^verbatim>\<open>raise\<close> after it are \<open>search_candidates\<close>. \<^verbatim>\<open>if resolved\<close>
  and \<^verbatim>\<open>if explicit_path\<close> are Python truth tests: \<^verbatim>\<open>None\<close> and the empty string
  are false. In \<^verbatim>\<open>is_file() and exists()\<close> the second test runs only when the first
  answers \<^verbatim>\<open>True\<close>, and an error raised by either passes through.
\<close>

definition candidates :: "string list" where
  "candidates = [''google-chrome'', ''chromium-browser'', ''chromium'', ''chrome'', ''msedge'']"

fun search_candidates :: "env \<Rightarrow> string list \<Rightarrow> error + string" where
  "search_candidates env [] =
     Inl (FileNotFoundError
       ''No Chrome/Chromium executable found. Use --browser to point to an existing binary.'')"
| "search_candidates env (candidate # rest) =
     (case which env candidate of
        None \<Rightarrow> search_candidates env rest
      | Some resolved \<Rightarrow>
          if resolved \<noteq> [] then Inr resolved else search_candidates env rest)"

definition find_browser :: "env \<Rightarrow> string option \<Rightarrow> error + string" where
  "find_browser env explicit_path =
     (case explicit_path of
        None \<Rightarrow> search_candidates env candidates
      | Some given \<Rightarrow>
          if given \<noteq> [] then
            (let browser_path = parse_path given;
                 not_found = FileNotFoundError
                   (''Browser binary not found at provided path: '' @ path_str browser_path)
             in (case is_file env browser_path of
                   Inl e \<Rightarrow> Inl e
                 | Inr regular \<Rightarrow>
                     if regular then
                       (case path_exists env browser_path of
                          Inl e \<Rightarrow> Inl e
                        | Inr present \<Rightarrow>
                            if present then Inr (path_str browser_path) else Inl not_found)
                     else Inl not_found))
          else search_candidates env candidates)"

section \<open>\<^verbatim>\<open>start_server\<close>\<close>

text \<open>
  \<^verbatim>\<open>
  handler = functools.partial(http.server.SimpleHTTPRequestHandler, directory=str(root_directory))
  server = http.server.ThreadingHTTPServer(("127.0.0.1", 0), handler)
  thread = threading.Thread(target=server.serve_forever, daemon=True)
  thread.start()
  return server, thread
  \<close>
  Binding to port 0 makes the kernel choose the port; \<^verbatim>\<open>server.server_address\<close> then
  holds the loopback host and that port.
\<close>

record http_server =
  server_address :: "string \<times> nat"
  directory :: string

datatype thread = Thread "string \<times> nat"

definition start_server :: "env \<Rightarrow> path \<Rightarrow> trace \<Rightarrow> (http_server \<times> thread) \<times> trace" where
  "start_server env root_directory tr =
     (let server = \<lparr>server_address = (''127.0.0.1'', assigned_port env),
                     directory = path_str root_directory\<rparr>;
          thread = Thread (server_address server)
      in ((server, thread), tr @ [Serving (directory server) (server_address server)]))"

text \<open>\<^verbatim>\<open>server.shutdown()\<close> and \<^verbatim>\<open>thread.join(timeout=...)\<close>\<close>

definition server_shutdown :: "http_server \<Rightarrow> trace \<Rightarrow> trace" where
  "server_shutdown server tr = tr @ [Shutdown (server_address server)]"

definition thread_join :: "thread \<Rightarrow> nat \<Rightarrow> trace \<Rightarrow> trace" where
  "thread_join thread timeout tr = tr @ [Joined timeout]"

section \<open>\<^verbatim>\<open>build_print_command\<close>\<close>

definition build_print_command :: "string \<Rightarrow> string \<Rightarrow> path \<Rightarrow> int \<Rightarrow> string list" where
  "build_print_command browser url output_pdf wait_ms =
     [browser,
      ''--headless=new'',
      ''--disable-gpu'',
      ''--no-sandbox'',
      ''--virtual-time-budget='' @ format_int wait_ms,
      ''--print-to-pdf='' @ path_str output_pdf,
      url]"

section \<open>\<^verbatim>\<open>export_to_pdf\<close>\<close>

text \<open>
  \<^verbatim>\<open>subprocess.run(command, check=..., capture_output=True, text=True)\<close>: when the
  program cannot be started or its output cannot be decoded, the call raises; otherwise
  the command has run to its end, and with \<^verbatim>\<open>check=True\<close> a non-zero exit status
  raises \<^verbatim>\<open>CalledProcessError\<close>, with \<^verbatim>\<open>check=False\<close> the result is returned
  whatever the status.
\<close>

definition subprocess_run ::
  "env \<Rightarrow> string list \<Rightarrow> bool \<Rightarrow> trace \<Rightarrow> (error + completed_process) \<times> trace" where
  "subprocess_run env command check tr =
     (case execute env command of
        Not_started reason \<Rightarrow> (Inl (OSError reason), tr @ [Ran command])
      | Undecodable status \<Rightarrow> (Inl UnicodeDecodeError, tr @ [Ran command])
      | Completed result \<Rightarrow>
          if check \<and> returncode result \<noteq> 0
          then (Inl (CalledProcessError (returncode result) command), tr @ [Ran command])
          else (Inr result, tr @ [Ran command]))"

text \<open>
  \<^verbatim>\<open>try: body finally: final\<close>: the final block runs after the body whether the body
  returned or raised, and the body's outcome is then passed on.
\<close>

definition try_finally ::
  "(trace \<Rightarrow> (error + 'a) \<times> trace) \<Rightarrow> (trace \<Rightarrow> trace) \<Rightarrow> trace \<Rightarrow> (error + 'a) \<times> trace" where
  "try_finally body final tr = (case body tr of (outcome, tr') \<Rightarrow> (outcome, final tr'))"

definition newline :: string where
  "newline = [CHR 0x0A]"

text \<open>
  \<^verbatim>\<open>
  server, thread = start_server(html_path.parent)
  host, port = server.server_address
  quoted_name = urllib.parse.quote(html_path.name)
  url = f"http://{host}:{port}/{quoted_name}"
  try:
      command = build_print_command(browser, url, output_pdf, wait_ms)
      result = subprocess.run(command, check=False, capture_output=True, text=True)
      if result.returncode != 0:
          raise RuntimeError(
              "Browser failed to generate PDF.\n"
              f"Command: {' '.join(command)}\n"
              f"stdout: {result.stdout}\n"
              f"stderr: {result.stderr}")
  finally:
      server.shutdown()
      thread.join(timeout=2)
  \<close>
\<close>

text \<open>
  The server is started and the file name quoted before the \<^verbatim>\<open>try\<close>: an error raised
  by \<^verbatim>\<open>quote\<close> leaves \<open>export_to_pdf\<close> without passing through the \<^verbatim>\<open>finally\<close>.
\<close>

definition export_to_pdf ::
  "env \<Rightarrow> path \<Rightarrow> path \<Rightarrow> int \<Rightarrow> string \<Rightarrow> trace \<Rightarrow> (error + unit) \<times> trace" where
  "export_to_pdf env html_path output_pdf wait_ms browser tr =
     (case start_server env (path_parent html_path) tr of
        ((server, thread), tr1) \<Rightarrow>
          (case server_address server of
             (host, port) \<Rightarrow>
               (case quote (path_name html_path) ''/'' of
                  Inl e \<Rightarrow> (Inl e, tr1)
                | Inr quoted_name \<Rightarrow>
                    (let url = ''http://'' @ host @ '':'' @ format_int (int port) @ ''/''
                               @ quoted_name
                     in try_finally
                          (\<lambda>t. let command = build_print_command browser url output_pdf wait_ms
                               in (case subprocess_run env command False t of
                                     (Inl e, t') \<Rightarrow> (Inl e, t')
                                   | (Inr result, t') \<Rightarrow>
                                       if returncode result \<noteq> 0 then
                                         (Inl (RuntimeError
                                            (''Browser failed to generate PDF.'' @ newline
                                             @ ''Command: '' @ str_join '' '' command @ newline
                                             @ ''stdout: '' @ stdout result @ newline
                                             @ ''stderr: '' @ stderr result)), t')
                                       else (Inr (), t')))
                          (\<lambda>t. thread_join thread 2 (server_shutdown server t))
                          tr1))))"

section \<open>\<^verbatim>\<open>main\<close>\<close>

text \<open>
  \<^verbatim>\<open>p.with_suffix(new_suffix)\<close> of \<^verbatim>\<open>pathlib\<close>: the suffix is validated, a path with
  an empty name is refused, and the last suffix of the name (if any) is cut off before
  the new one is appended.
\<close>

definition with_suffix :: "path \<Rightarrow> string \<Rightarrow> error + path" where
  "with_suffix p new_suffix =
     (if CHR ''/'' \<in> set new_suffix then Inl ValueError
      else if (new_suffix \<noteq> [] \<and> \<not> prefix ''.'' new_suffix) \<or> new_suffix = ''.''
      then Inl ValueError
      else
        (let name = path_name p
         in if name = [] then Inl ValueError
            else
              (let old_suffix = path_suffix p;
                   name' = (if old_suffix = [] then name @ new_suffix
                            else take (length name - length old_suffix) name @ new_suffix)
               in Inr (PurePath (root p) (butlast (tail p) @ [name'])))))"

text \<open>The parsed command line (\<^verbatim>\<open>argparse.Namespace\<close>); \<^verbatim>\<open>--wait\<close> defaults to 10000.\<close>

record args =
  arg_html_file :: path
  arg_output_pdf :: "path option"
  arg_browser :: "string option"
  arg_wait_ms :: int

text \<open>
  \<^verbatim>\<open>
  output_pdf = (
      args.output_pdf.expanduser().resolve()
      if args.output_pdf
      else html_path.with_suffix(".pdf"))
  \<close>
  A \<^verbatim>\<open>Path\<close> object is always true, so the test is whether the argument was given.
\<close>

definition main_output_pdf :: "env \<Rightarrow> args \<Rightarrow> path \<Rightarrow> error + path" where
  "main_output_pdf env args html_path =
     (case arg_output_pdf args of
        Some given \<Rightarrow>
          (case expanduser env given of
             Inl e \<Rightarrow> Inl e
           | Inr expanded \<Rightarrow> resolve env expanded)
      | None \<Rightarrow> with_suffix html_path ''.pdf'')"

text \<open>
  \<^verbatim>\<open>
  html_path = args.html_file.expanduser().resolve()
  if not html_path.is_file():
      raise FileNotFoundError(f"HTML file not found: {html_path}")
  output_pdf = ...
  browser = find_browser(args.browser)
  export_to_pdf(html_path, output_pdf, args.wait_ms, browser)
  \<close>
\<close>

definition main :: "env \<Rightarrow> args \<Rightarrow> trace \<Rightarrow> (error + unit) \<times> trace" where
  "main env args tr =
     (case expanduser env (arg_html_file args) of
        Inl e \<Rightarrow> (Inl e, tr)
      | Inr expanded \<Rightarrow>
          (case resolve env expanded of
             Inl e \<Rightarrow> (Inl e, tr)
           | Inr html_path \<Rightarrow>
               (case is_file env html_path of
                  Inl e \<Rightarrow> (Inl e, tr)
                | Inr regular \<Rightarrow>
                    if \<not> regular
                    then (Inl (FileNotFoundError
                            (''HTML file not found: '' @ path_str html_path)), tr)
                    else
                      (case main_output_pdf env args html_path of
                         Inl e \<Rightarrow> (Inl e, tr)
                       | Inr output_pdf \<Rightarrow>
                           (case find_browser env (arg_browser args) of
                              Inl e \<Rightarrow> (Inl e, tr)
                            | Inr browser \<Rightarrow>
                                export_to_pdf env html_path output_pdf (arg_wait_ms args)
                                  browser tr)))))"

section \<open>Definitions used to state and prove the properties\<close>

text \<open>Reading a decimal numeral back, to show that \<open>format_int\<close> loses nothing.\<close>

definition digit_value :: "char \<Rightarrow> nat" where
  "digit_value c = of_char c - 48"

definition digits_value :: "string \<Rightarrow> nat" where
  "digits_value s = foldl (\<lambda>acc c. 10 * acc + digit_value c) 0 s"

text \<open>
  \<^verbatim>\<open>urllib.parse.unquote\<close> on bytes, the decoding the HTTP server applies to a request
  path: \<^verbatim>\<open>%\<close> followed by two hexadecimal digits is the byte they denote. It is only
  applied to the output of \<open>quote_from_bytes\<close> here, whose digits are upper case.
\<close>

definition hex_value :: "char \<Rightarrow> nat" where
  "hex_value c = (if c \<in> set ''0123456789'' then of_char c - 48 else of_char c - 55)"

fun unquote :: "string \<Rightarrow> string" where
  "unquote [] = []"
| "unquote (c # rest) =
     (if c = CHR ''%'' then
        (case rest of
           h # l # rest' \<Rightarrow> char_of (16 * hex_value h + hex_value l) # unquote rest'
         | _ \<Rightarrow> c # unquote rest)
      else c # unquote rest)"

text \<open>
  Path components that \<^verbatim>\<open>pathlib\<close> keeps as they are: at least one component, none
  empty, none \<^verbatim>\<open>.\<close>, none containing the separator.
\<close>

definition plain_components :: "string list \<Rightarrow> bool" where
  "plain_components comps \<longleftrightarrow>
     comps \<noteq> [] \<and> list_all (\<lambda>c. c \<noteq> [] \<and> c \<noteq> ''.'' \<and> CHR ''/'' \<notin> set c) comps"

subsection \<open>Concrete environments\<close>

text \<open>
  An environment to evaluate the functions in. The working directory is \<^verbatim>\<open>/home/u\<close>:
  \<^verbatim>\<open>resolve\<close> puts a relative path under it. It holds the regular files \<^verbatim>\<open>chrome\<close>
  and \<^verbatim>\<open>report.htm\<close>. The directory \<^verbatim>\<open>/root\<close> may not be searched, so a file test
  under it raises. Only \<^verbatim>\<open>chromium\<close> is on the search path, the kernel assigns port
  40123, and every command runs and exits with the given status after printing
  \<^verbatim>\<open>out\<close> and \<^verbatim>\<open>boom\<close>.
\<close>

definition example_files :: "path \<Rightarrow> error + bool" where
  "example_files p =
     (if root p = ''/'' \<and> take 1 (tail p) = [''root''] then Inl (OSError ''Permission denied'')
      else Inr (p = PurePath [] [''chrome'']
                \<or> p = PurePath ''/'' [''home'', ''u'', ''chrome'']
                \<or> p = PurePath [] [''report.htm'']
                \<or> p = PurePath ''/'' [''home'', ''u'', ''report.htm'']))"

definition example_env :: "int \<Rightarrow> env" where
  "example_env status =
     \<lparr>is_file = example_files,
      path_exists = example_files,
      which = (\<lambda>c. if c = ''chromium'' then Some ''/usr/bin/chromium'' else None),
      expanduser = (\<lambda>p. Inr p),
      resolve = (\<lambda>p. if root p = [] then Inr (PurePath ''/'' ([''home'', ''u''] @ tail p))
                      else Inr p),
      assigned_port = 40123,
      execute = (\<lambda>c. Completed \<lparr>returncode = status, stdout = ''out'', stderr = ''boom''\<rparr>)\<rparr>"

definition report_htm :: path where
  "report_htm = PurePath ''/'' [''home'', ''u'', ''report.htm'']"

definition report_pdf :: path where
  "report_pdf = PurePath ''/'' [''home'', ''u'', ''report.pdf'']"

text \<open>
  The same, but \<^verbatim>\<open>report.htm\<close> in the working directory is a symbolic link to the
  regular file \<^verbatim>\<open>/store/page.html\<close>.
\<close>

definition symlink_env :: env where
  "symlink_env =
     (example_env 0)
       \<lparr>resolve := (\<lambda>p. if p = PurePath [] [''report.htm'']
                        then Inr (PurePath ''/'' [''store'', ''page.html''])
                        else resolve (example_env 0) p),
        is_file := (\<lambda>p. if p = PurePath ''/'' [''store'', ''page.html''] then Inr True
                        else example_files p)\<rparr>"

text \<open>
  A file name that is not UTF-8: \<^verbatim>\<open>caf\<close>, the byte \<^verbatim>\<open>E9\<close> (Latin-1 e acute) and
  \<^verbatim>\<open>.htm\<close>; in Python the string \<^verbatim>\<open>'caf\udce9.htm'\<close>.
\<close>

definition latin1_name :: string where
  "latin1_name = [CHR ''c'', CHR ''a'', CHR ''f'', CHR 0xE9] @ ''.htm''"

section \<open>Locating the browser\<close>


lemma search_candidates_first:
  "i < length cs \<Longrightarrow> which env (cs ! i) = Some r \<Longrightarrow> r \<noteq> [] \<Longrightarrow>
   \<forall>j<i. which env (cs ! j) = None \<or> which env (cs ! j) = Some [] \<Longrightarrow>
   search_candidates env cs = Inr r"
proof (induction cs arbitrary: i)
  case Nil
  then show ?case by simp
next
  case (Cons c cs)
  show ?case
  proof (cases i)
    case 0
    with Cons.prems show ?thesis by simp
  next
    case (Suc k)
    from Cons.prems(4) Suc have here: "which env c = None \<or> which env c = Some []"
      by auto
    have "\<forall>j<k. which env (cs ! j) = None \<or> which env (cs ! j) = Some []"
    proof (intro allI impI)
      fix j assume "j < k"
      then have "Suc j < i" using Suc by simp
      with Cons.prems(4) show "which env (cs ! j) = None \<or> which env (cs ! j) = Some []"
        by fastforce
    qed
    with Cons.IH[of k] Cons.prems Suc have "search_candidates env cs = Inr r"
      by simp
    with here show ?thesis by auto
  qed
qed

lemma search_candidates_none:
  "\<forall>c \<in> set cs. which env c = None \<or> which env c = Some [] \<Longrightarrow>
   search_candidates env cs = Inl (FileNotFoundError
     ''No Chrome/Chromium executable found. Use --browser to point to an existing binary.'')"
  by (induction cs) auto

lemma parse_path_opt_nope: "parse_path ''/opt/nope'' = PurePath ''/'' [''opt'', ''nope'']"
  by (simp add: parse_path_def splitroot_def)

lemma parse_path_dot_chrome: "parse_path ''./chrome'' = PurePath [] [''chrome'']"
  by (simp add: parse_path_def splitroot_def)

lemma parse_path_dot_nope: "parse_path ''./nope/'' = PurePath [] [''nope'']"
  by (simp add: parse_path_def splitroot_def)

lemma parse_path_root_chrome: "parse_path ''/root/chrome'' = PurePath ''/'' [''root'', ''chrome'']"
  by (simp add: parse_path_def splitroot_def)

lemma str_split_no_sep: "sep \<notin> set x \<Longrightarrow> str_split sep x = [x]"
  by (induction x) auto

lemma str_split_append_sep:
  "sep \<notin> set x \<Longrightarrow> str_split sep (x @ sep # rest) = x # str_split sep rest"
  by (induction x) auto

lemma str_split_join:
  "comps \<noteq> [] \<Longrightarrow> \<forall>c \<in> set comps. CHR ''/'' \<notin> set c \<Longrightarrow>
   str_split CHR ''/'' (str_join ''/'' comps) = comps"
proof (induction "''/''" comps rule: str_join.induct)
  case 1
  then show ?case by simp
next
  case (2 x)
  then show ?case by (simp add: str_split_no_sep)
next
  case (3 x y ys)
  then show ?case
    using str_split_append_sep[of "CHR ''/''" x "str_join ''/'' (y # ys)"] by simp
qed

lemma str_join_plain_hd:
  "plain_components comps \<Longrightarrow> str_join ''/'' comps \<noteq> [] \<and> hd (str_join ''/'' comps) \<noteq> CHR ''/''"
  by (induction "''/''" comps rule: str_join.induct)
     (auto simp add: plain_components_def neq_Nil_conv)

lemma filter_plain:
  "plain_components comps \<Longrightarrow> filter (\<lambda>x. x \<noteq> [] \<and> x \<noteq> ''.'') comps = comps"
  by (simp add: plain_components_def list_all_iff filter_id_conv)

lemma parse_path_relative:
  assumes "plain_components comps"
  shows "parse_path (str_join ''/'' comps) = PurePath [] comps"
proof -
  have split: "str_split CHR ''/'' (str_join ''/'' comps) = comps"
    using assms by (intro str_split_join) (auto simp add: plain_components_def list_all_iff)
  have "splitroot (str_join ''/'' comps) = ([], str_join ''/'' comps)"
    using str_join_plain_hd[OF assms] by (simp add: splitroot_def)
  then show ?thesis
    using split filter_plain[OF assms] by (simp add: parse_path_def)
qed

lemma parse_path_absolute:
  assumes "plain_components comps"
  shows "parse_path (CHR ''/'' # str_join ''/'' comps) = PurePath ''/'' comps"
proof -
  have split: "str_split CHR ''/'' (str_join ''/'' comps) = comps"
    using assms by (intro str_split_join) (auto simp add: plain_components_def list_all_iff)
  from str_join_plain_hd[OF assms] obtain c cs where j: "str_join ''/'' comps = c # cs" "c \<noteq> CHR ''/''"
    by (cases "str_join ''/'' comps") auto
  have "splitroot (CHR ''/'' # str_join ''/'' comps) = (''/'', str_join ''/'' comps)"
    using j by (simp add: splitroot_def)
  then show ?thesis
    using split filter_plain[OF assms] by (simp add: parse_path_def)
qed

lemma path_str_parse_plain:
  assumes "plain_components comps"
  shows "path_str (parse_path (str_join ''/'' comps)) = str_join ''/'' comps"
    and "path_str (parse_path (''/'' @ str_join ''/'' comps)) = ''/'' @ str_join ''/'' comps"
  using str_join_plain_hd[OF assms]
  by (simp_all add: parse_path_relative[OF assms] parse_path_absolute[OF assms] path_str_def)

text \<open>
  An explicit path that passes the file tests is returned in the string form of its
  \<^verbatim>\<open>Path\<close> object. That is the string given when the path is written with plain
  components, relative or under the root \<^verbatim>\<open>/\<close>.
\<close>

lemma find_browser_explicit_found:
  "given \<noteq> [] \<Longrightarrow> is_file env (parse_path given) = Inr True \<Longrightarrow>
   path_exists env (parse_path given) = Inr True \<Longrightarrow>
   find_browser env (Some given) = Inr (path_str (parse_path given))"
  by (simp add: find_browser_def)

lemma find_browser_explicit_plain:
  assumes "plain_components comps"
    and "given = str_join ''/'' comps \<or> given = ''/'' @ str_join ''/'' comps"
    and "is_file env (parse_path given) = Inr True"
    and "path_exists env (parse_path given) = Inr True"
  shows "find_browser env (Some given) = Inr given"
proof -
  have "given \<noteq> []" using assms(2) str_join_plain_hd[OF assms(1)] by auto
  moreover have "path_str (parse_path given) = given"
    using assms(2) path_str_parse_plain[OF assms(1)] by auto
  ultimately show ?thesis
    using assms(3,4) by (simp add: find_browser_def)
qed

text \<open>An error raised by a file test passes through \<open>find_browser\<close>.\<close>

lemma find_browser_test_raises:
  assumes "given \<noteq> []"
    and "is_file env (parse_path given) = Inl e
         \<or> (is_file env (parse_path given) = Inr True \<and> path_exists env (parse_path given) = Inl e)"
  shows "find_browser env (Some given) = Inl e"
  using assms by (auto simp add: find_browser_def)

text \<open>
  C3. For an explicit browser path naming an existing regular file the claim is that
  \<open>find_browser\<close> returns that exact string. The function returns \<^verbatim>\<open>str(Path(...))\<close>
  instead: for the explicit path \<^verbatim>\<open>./chrome\<close>, an existing regular file, the result is
  \<^verbatim>\<open>chrome\<close>, a different string (which a later program search would look up on the
  search path and not in the working directory).
\<close>

theorem find_browser_explicit_not_verbatim:
  "is_file (example_env 0) (parse_path ''./chrome'') = Inr True
   \<and> path_exists (example_env 0) (parse_path ''./chrome'') = Inr True
   \<and> find_browser (example_env 0) (Some ''./chrome'') = Inr ''chrome''"
  by (simp add: find_browser_def parse_path_dot_chrome example_env_def example_files_def
      path_str_def)

text \<open>
  C4 (amended). For every non-empty explicit path whose file tests answer, without
  raising, that it is not an existing regular file, \<open>find_browser\<close> fails with the
  not-found error whose message is \<^verbatim>\<open>Browser binary not found at provided path: \<close>
  followed by the string form of the \<^verbatim>\<open>Path\<close> object of the attempted path, whatever
  \<^verbatim>\<open>shutil.which\<close> would resolve: the candidate search is not consulted. For a path
  written with plain components that string form is the attempted string itself.
\<close>

theorem find_browser_explicit_missing:
  assumes "given \<noteq> []"
    and "is_file env (parse_path given) = Inr False
         \<or> (is_file env (parse_path given) = Inr True
            \<and> path_exists env (parse_path given) = Inr False)"
  shows "find_browser (env\<lparr>which := w\<rparr>) (Some given) =
           Inl (FileNotFoundError
             (''Browser binary not found at provided path: '' @ path_str (parse_path given)))
         \<and> (plain_components comps
              \<and> (given = str_join ''/'' comps \<or> given = ''/'' @ str_join ''/'' comps)
            \<longrightarrow> find_browser (env\<lparr>which := w\<rparr>) (Some given) =
                  Inl (FileNotFoundError
                    (''Browser binary not found at provided path: '' @ given)))"
proof -
  have first: "find_browser (env\<lparr>which := w\<rparr>) (Some given) =
           Inl (FileNotFoundError
             (''Browser binary not found at provided path: '' @ path_str (parse_path given)))"
    using assms by (auto simp add: find_browser_def Let_def)
  have "path_str (parse_path given) = given"
    if "plain_components comps"
      and "given = str_join ''/'' comps \<or> given = ''/'' @ str_join ''/'' comps"
    using that path_str_parse_plain[of comps] by auto
  with first show ?thesis by simp
qed

theorem find_browser_explicit_missing_witness:
  "find_browser ((example_env 0)\<lparr>which := (\<lambda>c. Some ''/usr/bin/google-chrome'')\<rparr>)
     (Some ''/opt/nope'') =
     Inl (FileNotFoundError ''Browser binary not found at provided path: /opt/nope'')"
proof -
  have a: "''/opt/nope'' \<noteq> []" by simp
  have b: "is_file (example_env 0) (parse_path ''/opt/nope'') = Inr False
           \<or> (is_file (example_env 0) (parse_path ''/opt/nope'') = Inr True
              \<and> path_exists (example_env 0) (parse_path ''/opt/nope'') = Inr False)"
    by (simp add: parse_path_opt_nope example_env_def example_files_def)
  have c: "plain_components [''opt'', ''nope'']
           \<and> (''/opt/nope'' = str_join ''/'' [''opt'', ''nope'']
               \<or> ''/opt/nope'' = ''/'' @ str_join ''/'' [''opt'', ''nope''])"
    by (simp add: plain_components_def)
  from find_browser_explicit_missing[OF a b, of "\<lambda>c. Some ''/usr/bin/google-chrome''"
        "[''opt'', ''nope'']", THEN conjunct2, THEN mp, OF c]
  show ?thesis by simp
qed

text \<open>
  The claim as first stated, that the message carries the attempted path for every
  explicit path that names no existing regular file, fails in two ways. For
  \<^verbatim>\<open>./nope/\<close> the message ends with \<^verbatim>\<open>nope\<close> and the attempted string does not occur
  in it. For \<^verbatim>\<open>/root/chrome\<close>, where the file test raises, the error is the
  \<^verbatim>\<open>OSError\<close> of the test and not the not-found error.
\<close>

theorem find_browser_message_not_verbatim:
  "is_file (example_env 0) (parse_path ''./nope/'') = Inr False
   \<and> find_browser (example_env 0) (Some ''./nope/'') =
       Inl (FileNotFoundError ''Browser binary not found at provided path: nope'')
   \<and> \<not> sublist ''./nope/'' ''Browser binary not found at provided path: nope''
   \<and> find_browser (example_env 0) (Some ''/root/chrome'') = Inl (OSError ''Permission denied'')"
proof (intro conjI)
  show "is_file (example_env 0) (parse_path ''./nope/'') = Inr False"
    by (simp add: parse_path_dot_nope example_env_def example_files_def)
  show "find_browser (example_env 0) (Some ''./nope/'') =
       Inl (FileNotFoundError ''Browser binary not found at provided path: nope'')"
    by (simp add: find_browser_def parse_path_dot_nope example_env_def example_files_def
        path_str_def)
  show "\<not> sublist ''./nope/'' ''Browser binary not found at provided path: nope''"
    by (simp add: sublist_Cons_right)
  show "find_browser (example_env 0) (Some ''/root/chrome'') = Inl (OSError ''Permission denied'')"
    by (simp add: find_browser_def parse_path_root_chrome example_env_def example_files_def)
qed

text \<open>
  C5. With no explicit path, \<open>find_browser\<close> tries the five fixed names in their order
  with \<^verbatim>\<open>shutil.which\<close> and returns the first result that resolves (the candidate at
  index \<open>i\<close> resolves and none before it does); when no candidate resolves it fails with
  the error that tells the caller to use \<^verbatim>\<open>--browser\<close>.
\<close>

theorem find_browser_search_order:
  "candidates = [''google-chrome'', ''chromium-browser'', ''chromium'', ''chrome'', ''msedge'']
   \<and> (\<forall>i r. i < length candidates \<and> which env (candidates ! i) = Some r \<and> r \<noteq> []
          \<and> (\<forall>j<i. which env (candidates ! j) = None \<or> which env (candidates ! j) = Some [])
        \<longrightarrow> find_browser env None = Inr r)
   \<and> ((\<forall>c \<in> set candidates. which env c = None \<or> which env c = Some [])
        \<longrightarrow> find_browser env None = Inl (FileNotFoundError
              ''No Chrome/Chromium executable found. Use --browser to point to an existing binary.''))"
proof (intro conjI allI impI)
  show "candidates = [''google-chrome'', ''chromium-browser'', ''chromium'', ''chrome'', ''msedge'']"
    by (simp add: candidates_def)
next
  fix i r
  assume "i < length candidates \<and> which env (candidates ! i) = Some r \<and> r \<noteq> []
          \<and> (\<forall>j<i. which env (candidates ! j) = None \<or> which env (candidates ! j) = Some [])"
  then show "find_browser env None = Inr r"
    using search_candidates_first[of i candidates env r] by (simp add: find_browser_def)
next
  assume "\<forall>c \<in> set candidates. which env c = None \<or> which env c = Some []"
  then show "find_browser env None = Inl (FileNotFoundError
              ''No Chrome/Chromium executable found. Use --browser to point to an existing binary.'')"
    using search_candidates_none[of candidates env] by (simp add: find_browser_def)
qed

theorem find_browser_search_order_witness:
  "find_browser (example_env 0) None = Inr ''/usr/bin/chromium''
   \<and> find_browser ((example_env 0)\<lparr>which := (\<lambda>c. None)\<rparr>) None = Inl (FileNotFoundError
        ''No Chrome/Chromium executable found. Use --browser to point to an existing binary.'')"
proof
  have "2 < length candidates \<and> which (example_env 0) (candidates ! 2) = Some ''/usr/bin/chromium''
        \<and> ''/usr/bin/chromium'' \<noteq> []
        \<and> (\<forall>j<2. which (example_env 0) (candidates ! j) = None
                \<or> which (example_env 0) (candidates ! j) = Some [])"
    by (auto simp add: candidates_def example_env_def less_Suc_eq numeral_2_eq_2)
  with find_browser_search_order[of "example_env 0"]
  show "find_browser (example_env 0) None = Inr ''/usr/bin/chromium''"
    by blast
next
  have "\<forall>c \<in> set candidates. which ((example_env 0)\<lparr>which := (\<lambda>c. None)\<rparr>) c = None
          \<or> which ((example_env 0)\<lparr>which := (\<lambda>c. None)\<rparr>) c = Some []"
    by simp
  with find_browser_search_order[of "(example_env 0)\<lparr>which := (\<lambda>c. None)\<rparr>"]
  show "find_browser ((example_env 0)\<lparr>which := (\<lambda>c. None)\<rparr>) None = Inl (FileNotFoundError
        ''No Chrome/Chromium executable found. Use --browser to point to an existing binary.'')"
    by blast
qed


section \<open>The print command\<close>

lemma digit_cases:
  assumes "d < (10::nat)"
  shows "d = 0 \<or> d = 1 \<or> d = 2 \<or> d = 3 \<or> d = 4 \<or> d = 5 \<or> d = 6 \<or> d = 7 \<or> d = 8 \<or> d = 9"
  using assms by arith

lemma digit_value_digit_char: "d < 10 \<Longrightarrow> digit_value (digit_char d) = d"
  using digit_cases[of d] by (auto simp add: digit_char_def digit_value_def)

lemma digit_char_not_minus: "d < 10 \<Longrightarrow> digit_char d \<noteq> CHR ''-''"
  using digit_cases[of d] by (auto simp add: digit_char_def)

lemma digits_value_snoc: "digits_value (s @ [c]) = 10 * digits_value s + digit_value c"
  by (simp add: digits_value_def)

lemma digits_value_nat_digits: "digits_value (nat_digits n) = n"
proof (induction n rule: nat_digits.induct)
  case (1 n)
  show ?case
  proof (cases "n < 10")
    case True
    then show ?thesis
      by (simp add: nat_digits.simps[of n] digits_value_def digit_value_digit_char)
  next
    case False
    with 1 have "digits_value (nat_digits (n div 10)) = n div 10" by simp
    with False show ?thesis
      by (simp add: nat_digits.simps[of n] digits_value_snoc digit_value_digit_char)
  qed
qed

lemma nat_digits_inj: "nat_digits m = nat_digits n \<Longrightarrow> m = n"
  by (metis digits_value_nat_digits)

lemma minus_notin_nat_digits: "CHR ''-'' \<notin> set (nat_digits n)"
proof (induction n rule: nat_digits.induct)
  case (1 n)
  show ?case
  proof (cases "n < 10")
    case True
    then show ?thesis
      using digit_char_not_minus[of n] by (simp add: nat_digits.simps[of n])
  next
    case False
    with 1 have "CHR ''-'' \<notin> set (nat_digits (n div 10))" by simp
    with False show ?thesis
      using digit_char_not_minus[of "n mod 10"] by (simp add: nat_digits.simps[of n])
  qed
qed

lemma format_int_inj: "format_int i = format_int j \<longleftrightarrow> i = j"
proof
  assume eq: "format_int i = format_int j"
  show "i = j"
  proof (cases "i < 0")
    case ineg: True
    show ?thesis
    proof (cases "j < 0")
      case True
      with ineg eq have "nat (- i) = nat (- j)"
        by (simp add: format_int_def nat_digits_inj)
      with ineg True show ?thesis by simp
    next
      case False
      with ineg eq have "CHR ''-'' \<in> set (nat_digits (nat j))"
        by (metis format_int_def list.set_intros(1))
      then show ?thesis by (simp add: minus_notin_nat_digits)
    qed
  next
    case inonneg: False
    show ?thesis
    proof (cases "j < 0")
      case True
      with inonneg eq have "CHR ''-'' \<in> set (nat_digits (nat i))"
        by (metis format_int_def list.set_intros(1))
      then show ?thesis by (simp add: minus_notin_nat_digits)
    next
      case False
      with inonneg eq have "nat i = nat j"
        by (simp add: format_int_def nat_digits_inj)
      with inonneg False show ?thesis by simp
    qed
  qed
qed simp

text \<open>
  C2. \<open>build_print_command\<close> is a function of its four arguments alone. Its result
  is the browser path, the three fixed flags \<^verbatim>\<open>--headless=new\<close>, \<^verbatim>\<open>--disable-gpu\<close>,
  \<^verbatim>\<open>--no-sandbox\<close>, the virtual-time-budget flag with the decimal numeral of the wait
  parameter, the print-to-pdf flag with the output path, and the URL last; two commands
  are equal exactly when the browser, the URL, the output path string and the wait
  parameter are.
\<close>

theorem build_print_command_structure:
  "build_print_command browser url output_pdf wait_ms =
     [browser, ''--headless=new'', ''--disable-gpu'', ''--no-sandbox'',
      ''--virtual-time-budget='' @ format_int wait_ms,
      ''--print-to-pdf='' @ path_str output_pdf,
      url]
   \<and> last (build_print_command browser url output_pdf wait_ms) = url
   \<and> (build_print_command browser url output_pdf wait_ms =
        build_print_command browser' url' output_pdf' wait_ms'
      \<longleftrightarrow> browser = browser' \<and> url = url' \<and> path_str output_pdf = path_str output_pdf'
          \<and> wait_ms = wait_ms')"
  by (auto simp add: build_print_command_def format_int_inj)

section \<open>The export\<close>

lemma quote_wellformed: "utf8_wellformed s \<Longrightarrow> quote s safe = Inr (quote_from_bytes s safe)"
  by (simp add: quote_def quote_from_bytes_def)

lemma quote_not_wellformed: "\<not> utf8_wellformed s \<Longrightarrow> quote s safe = Inl UnicodeEncodeError"
  by (auto simp add: quote_def utf8_wellformed_def)

text \<open>
  The whole of \<open>export_to_pdf\<close> in two equations: its outcome and its effects when the
  file name can be quoted, and when it cannot.
\<close>

lemma export_to_pdf_quoted:
  assumes "utf8_wellformed (path_name html_path)"
  shows "export_to_pdf env html_path output_pdf wait_ms browser tr =
     (let address = (''127.0.0.1'', assigned_port env);
          url = ''http://127.0.0.1:'' @ format_int (int (assigned_port env)) @ ''/''
                @ quote_from_bytes (path_name html_path) ''/'';
          command = build_print_command browser url output_pdf wait_ms
      in ((case execute env command of
             Not_started reason \<Rightarrow> Inl (OSError reason)
           | Undecodable status \<Rightarrow> Inl UnicodeDecodeError
           | Completed result \<Rightarrow>
               if returncode result \<noteq> 0
               then Inl (RuntimeError
                      (''Browser failed to generate PDF.'' @ newline
                       @ ''Command: '' @ str_join '' '' command @ newline
                       @ ''stdout: '' @ stdout result @ newline
                       @ ''stderr: '' @ stderr result))
               else Inr ()),
          tr @ [Serving (path_str (path_parent html_path)) address, Ran command,
                Shutdown address, Joined 2]))"
  by (simp add: export_to_pdf_def start_server_def try_finally_def subprocess_run_def
      server_shutdown_def thread_join_def Let_def quote_wellformed[OF assms]
      split: run_outcome.splits)

lemma export_to_pdf_not_quoted:
  assumes "\<not> utf8_wellformed (path_name html_path)"
  shows "export_to_pdf env html_path output_pdf wait_ms browser tr =
     (Inl UnicodeEncodeError,
      tr @ [Serving (path_str (path_parent html_path)) (''127.0.0.1'', assigned_port env)])"
  by (simp add: export_to_pdf_def start_server_def Let_def quote_not_wellformed[OF assms])

lemma format_int_10000: "format_int 10000 = ''10000''"
  by (simp add: format_int_def nat_digits.simps digit_char_def)

lemma format_int_40123: "format_int 40123 = ''40123''"
  by (simp add: format_int_def nat_digits.simps digit_char_def)

text \<open>A name of ASCII characters can always be encoded.\<close>

lemma utf8_scan_ascii: "\<forall>c \<in> set s. (of_char c :: nat) < 128 \<Longrightarrow> utf8_scan 0 lo hi s"
  by (induction s arbitrary: lo hi) (auto simp add: utf8_lead_def in_range_def)

lemma wellformed_ascii: "\<forall>c \<in> set s. (of_char c :: nat) < 128 \<Longrightarrow> utf8_wellformed s"
  by (simp add: utf8_wellformed_def utf8_scan_ascii)

lemma wellformed_report_htm: "utf8_wellformed ''report.htm''"
  by (rule wellformed_ascii) simp

lemma wellformed_page_html: "utf8_wellformed ''page.html''"
  by (rule wellformed_ascii) simp

lemma wellformed_my_report_htm: "utf8_wellformed ''my report.htm''"
  by (rule wellformed_ascii) simp

lemma not_wellformed_latin1_name: "\<not> utf8_wellformed latin1_name"
  by (simp add: latin1_name_def utf8_wellformed_def utf8_lead_def in_range_def)

lemma quote_report_htm: "quote_from_bytes ''report.htm'' ''/'' = ''report.htm''"
  by (simp add: quote_from_bytes_def quoter_def always_safe_def)

lemma quote_page_html: "quote_from_bytes ''page.html'' ''/'' = ''page.html''"
  by (simp add: quote_from_bytes_def quoter_def always_safe_def)

lemma quote_my_report_htm: "quote_from_bytes ''my report.htm'' ''/'' = ''my%20report.htm''"
  by (simp add: quote_from_bytes_def quoter_def always_safe_def hex_digit_def)

lemma path_str_report_pdf: "path_str report_pdf = ''/home/u/report.pdf''"
  by (simp add: path_str_def report_pdf_def)

text \<open>
  When the file name can be quoted, every way out of \<open>export_to_pdf\<close> passes through
  the \<^verbatim>\<open>finally\<close>: whatever running the command gives, the effects end with the
  request to shut down the server and the join with a timeout of 2 seconds.
\<close>

lemma export_to_pdf_finally:
  assumes "utf8_wellformed (path_name html_path)"
  shows "\<exists>outcome command.
     export_to_pdf env html_path output_pdf wait_ms browser tr =
       (outcome,
        tr @ [Serving (path_str (path_parent html_path)) (''127.0.0.1'', assigned_port env),
              Ran command,
              Shutdown (''127.0.0.1'', assigned_port env),
              Joined 2])"
  by (simp add: export_to_pdf_quoted[OF assms] Let_def)

text \<open>
  C1. The claim is that every way out of \<open>export_to_pdf\<close> requests the shutdown of the
  server and joins its thread. The file name is quoted after the server is started and
  before the \<^verbatim>\<open>try\<close>: for the HTML file \<^verbatim>\<open>/home/u/caf\xe9.htm\<close>, whose name is not
  UTF-8, \<^verbatim>\<open>quote\<close> raises \<^verbatim>\<open>UnicodeEncodeError\<close>, and \<open>export_to_pdf\<close> ends with the
  server serving and neither shutdown nor join.
\<close>

theorem export_to_pdf_server_left_serving:
  "export_to_pdf (example_env 0) (PurePath ''/'' [''home'', ''u'', latin1_name]) report_pdf 10000
     ''/usr/bin/chromium'' [] =
   (Inl UnicodeEncodeError, [Serving ''/home/u'' (''127.0.0.1'', 40123)])"
proof -
  have "\<not> utf8_wellformed (path_name (PurePath ''/'' [''home'', ''u'', latin1_name]))"
    by (simp add: path_name_def not_wellformed_latin1_name)
  from export_to_pdf_not_quoted[OF this] show ?thesis
    by (simp add: example_env_def path_parent_def path_str_def)
qed

text \<open>
  C6. When the command exits with a non-zero status, \<open>export_to_pdf\<close> fails with a
  \<^verbatim>\<open>RuntimeError\<close> whose message contains the command line (the arguments joined
  by spaces), the captured standard output and the captured standard error.
  \<^verbatim>\<open>subprocess.run\<close> is called with \<^verbatim>\<open>check=False\<close> and returns the result: the
  status is tested by \<open>export_to_pdf\<close> itself.
\<close>

theorem export_to_pdf_nonzero_exit:
  assumes "utf8_wellformed (path_name html_path)"
    and "command = build_print_command browser
              (''http://127.0.0.1:'' @ format_int (int (assigned_port env)) @ ''/''
               @ quote_from_bytes (path_name html_path) ''/'') output_pdf wait_ms"
    and "execute env command = Completed result"
    and "returncode result \<noteq> 0"
  shows "\<exists>message.
      fst (export_to_pdf env html_path output_pdf wait_ms browser tr) = Inl (RuntimeError message)
      \<and> message = ''Browser failed to generate PDF.'' @ newline
                  @ ''Command: '' @ str_join '' '' command @ newline
                  @ ''stdout: '' @ stdout result @ newline
                  @ ''stderr: '' @ stderr result
      \<and> sublist (str_join '' '' command) message
      \<and> sublist (stdout result) message
      \<and> sublist (stderr result) message
      \<and> fst (subprocess_run env command False tr) = Inr result"
proof -
  let ?m = "''Browser failed to generate PDF.'' @ newline
                  @ ''Command: '' @ str_join '' '' command @ newline
                  @ ''stdout: '' @ stdout result @ newline
                  @ ''stderr: '' @ stderr result"
  have 1: "fst (export_to_pdf env html_path output_pdf wait_ms browser tr) = Inl (RuntimeError ?m)"
    using assms(2-4) by (simp add: export_to_pdf_quoted[OF assms(1)] Let_def)
  have 2: "sublist (str_join '' '' command) ?m"
    using sublist_appendI[of "str_join '' '' command" "''Browser failed to generate PDF.'' @ newline
                  @ ''Command: ''" "newline @ ''stdout: '' @ stdout result @ newline
                  @ ''stderr: '' @ stderr result"] by simp
  have 3: "sublist (stdout result) ?m"
    using sublist_appendI[of "stdout result" "''Browser failed to generate PDF.'' @ newline
                  @ ''Command: '' @ str_join '' '' command @ newline
                  @ ''stdout: ''" "newline @ ''stderr: '' @ stderr result"] by simp
  have 4: "sublist (stderr result) ?m"
    using sublist_append_leftI[of "stderr result" "''Browser failed to generate PDF.'' @ newline
                  @ ''Command: '' @ str_join '' '' command @ newline
                  @ ''stdout: '' @ stdout result @ newline
                  @ ''stderr: ''"] by simp
  have 5: "fst (subprocess_run env command False tr) = Inr result"
    using assms(3) by (simp add: subprocess_run_def)
  from 1 2 3 4 5 show ?thesis by blast
qed

theorem export_to_pdf_nonzero_exit_witness:
  "fst (export_to_pdf (example_env 1) report_htm report_pdf 10000 ''/usr/bin/chromium'' []) =
     Inl (RuntimeError
       (''Browser failed to generate PDF.'' @ newline
        @ ''Command: /usr/bin/chromium --headless=new --disable-gpu --no-sandbox ''
        @ ''--virtual-time-budget=10000 --print-to-pdf=/home/u/report.pdf ''
        @ ''http://127.0.0.1:40123/report.htm'' @ newline
        @ ''stdout: out'' @ newline
        @ ''stderr: boom''))"
proof -
  let ?command = "build_print_command ''/usr/bin/chromium''
      (''http://127.0.0.1:'' @ format_int (int (assigned_port (example_env 1))) @ ''/''
       @ quote_from_bytes (path_name report_htm) ''/'') report_pdf 10000"
  let ?result = "\<lparr>returncode = 1, stdout = ''out'', stderr = ''boom''\<rparr>"
  have name: "path_name report_htm = ''report.htm''"
    by (simp add: path_name_def report_htm_def)
  have wf: "utf8_wellformed (path_name report_htm)"
    by (simp only: name wellformed_report_htm)
  have ran: "execute (example_env 1) ?command = Completed ?result"
    by (simp add: example_env_def)
  have nonzero: "returncode ?result \<noteq> 0"
    by simp
  have port: "assigned_port (example_env 1) = 40123"
    by (simp add: example_env_def)
  have out: "stdout ?result = ''out''" "stderr ?result = ''boom''"
    by simp_all
  have command: "str_join '' '' ?command =
      ''/usr/bin/chromium --headless=new --disable-gpu --no-sandbox ''
      @ ''--virtual-time-budget=10000 --print-to-pdf=/home/u/report.pdf ''
      @ ''http://127.0.0.1:40123/report.htm''"
    by (simp add: port name format_int_40123 format_int_10000 quote_report_htm
        path_str_report_pdf build_print_command_def)
  from export_to_pdf_nonzero_exit[OF wf refl ran nonzero, of "[]"]
  obtain message where
    "fst (export_to_pdf (example_env 1) report_htm report_pdf 10000 ''/usr/bin/chromium'' []) =
       Inl (RuntimeError message)"
    and "message = ''Browser failed to generate PDF.'' @ newline
                  @ ''Command: '' @ str_join '' '' ?command @ newline
                  @ ''stdout: '' @ stdout ?result @ newline
                  @ ''stderr: '' @ stderr ?result"
    by blast
  then show ?thesis
    apply (simp only: out command)
    apply simp
    done
qed

text \<open>
  C10 (amended). \<open>export_to_pdf\<close> raises its \<^verbatim>\<open>RuntimeError\<close> exactly when the
  command was run to its end and exited with a non-zero status, and it returns exactly
  when the command was run to its end and exited with status 0; in every other case (the
  file name cannot be quoted, the program cannot be started, its output cannot be
  decoded) it raises the error of the library. A zero status is success: the outcome and
  the effects do not depend on the file tests of the environment, so no file is looked
  for at the output path.
\<close>

theorem export_to_pdf_outcome:
  "((\<exists>message. fst (export_to_pdf env html_path output_pdf wait_ms browser tr) =
        Inl (RuntimeError message))
      \<longleftrightarrow> utf8_wellformed (path_name html_path)
          \<and> (\<exists>result. execute env (build_print_command browser
                (''http://127.0.0.1:'' @ format_int (int (assigned_port env)) @ ''/''
                 @ quote_from_bytes (path_name html_path) ''/'') output_pdf wait_ms)
                = Completed result \<and> returncode result \<noteq> 0))
   \<and> (fst (export_to_pdf env html_path output_pdf wait_ms browser tr) = Inr ()
      \<longleftrightarrow> utf8_wellformed (path_name html_path)
          \<and> (\<exists>result. execute env (build_print_command browser
                (''http://127.0.0.1:'' @ format_int (int (assigned_port env)) @ ''/''
                 @ quote_from_bytes (path_name html_path) ''/'') output_pdf wait_ms)
                = Completed result \<and> returncode result = 0))
   \<and> export_to_pdf (env\<lparr>is_file := f, path_exists := g\<rparr>) html_path output_pdf wait_ms browser tr
     = export_to_pdf env html_path output_pdf wait_ms browser tr"
proof (cases "utf8_wellformed (path_name html_path)")
  case True
  show ?thesis
    by (simp add: export_to_pdf_quoted[OF True] Let_def True split: run_outcome.splits)
next
  case False
  show ?thesis
    by (simp add: export_to_pdf_not_quoted[OF False] False)
qed

theorem export_to_pdf_outcome_witness:
  "(\<exists>message. fst (export_to_pdf (example_env 1) report_htm report_pdf 10000
        ''/usr/bin/chromium'' []) = Inl (RuntimeError message))
   \<and> fst (export_to_pdf (example_env 0) report_htm report_pdf 10000
        ''/usr/bin/chromium'' []) = Inr ()"
proof -
  have wf: "utf8_wellformed (path_name report_htm)"
    by (simp add: path_name_def report_htm_def wellformed_report_htm)
  have one: "\<exists>result. execute (example_env 1) c = Completed result \<and> returncode result \<noteq> 0" for c
    by (simp add: example_env_def)
  have zero: "\<exists>result. execute (example_env 0) c = Completed result \<and> returncode result = 0" for c
    by (simp add: example_env_def)
  show ?thesis
    using export_to_pdf_outcome[of "example_env 1" report_htm report_pdf 10000
        "''/usr/bin/chromium''" "[]"]
      export_to_pdf_outcome[of "example_env 0" report_htm report_pdf 10000
        "''/usr/bin/chromium''" "[]"] wf one zero
    by blast
qed

text \<open>
  The claim as first stated, that \<open>export_to_pdf\<close> raises only when the command exits
  with a non-zero status, fails: a command that exits with status 0 after printing
  bytes that are not text makes \<^verbatim>\<open>subprocess.run\<close>, and so \<open>export_to_pdf\<close>, raise
  \<^verbatim>\<open>UnicodeDecodeError\<close>.
\<close>

theorem export_to_pdf_raises_on_zero_exit:
  "execute ((example_env 0)\<lparr>execute := (\<lambda>c. Undecodable 0)\<rparr>)
     (build_print_command ''/usr/bin/chromium'' ''http://127.0.0.1:40123/report.htm''
        report_pdf 10000) = Undecodable 0
   \<and> fst (export_to_pdf ((example_env 0)\<lparr>execute := (\<lambda>c. Undecodable 0)\<rparr>)
        report_htm report_pdf 10000 ''/usr/bin/chromium'' []) = Inl UnicodeDecodeError"
proof -
  have wf: "utf8_wellformed (path_name report_htm)"
    by (simp add: path_name_def report_htm_def wellformed_report_htm)
  show ?thesis
    by (simp add: export_to_pdf_quoted[OF wf] Let_def)
qed

text \<open>
  The percent-encoding: the quoted name consists of always-safe characters, \<^verbatim>\<open>/\<close>
  and \<^verbatim>\<open>%\<close>, and decoding it gives the name back, so different names give different
  URLs.
\<close>

lemma hex_cases:
  assumes "d < (16::nat)"
  shows "d = 0 \<or> d = 1 \<or> d = 2 \<or> d = 3 \<or> d = 4 \<or> d = 5 \<or> d = 6 \<or> d = 7 \<or> d = 8 \<or> d = 9
         \<or> d = 10 \<or> d = 11 \<or> d = 12 \<or> d = 13 \<or> d = 14 \<or> d = 15"
  using assms by arith

lemma hex_value_hex_digit: "d < 16 \<Longrightarrow> hex_value (hex_digit d) = d"
  using hex_cases[of d] by (auto simp add: hex_digit_def hex_value_def)

lemma hex_digit_safe: "d < 16 \<Longrightarrow> hex_digit d \<in> set always_safe"
  using hex_cases[of d] by (auto simp add: hex_digit_def always_safe_def)

lemma of_char_less_256: "(of_char b :: nat) < 256"
proof -
  have "(of_char b :: nat) = of_char b mod 256" by simp
  also have "\<dots> < 256" by simp
  finally show ?thesis .
qed

lemma quoter_chars: "set (quoter ''/'' b) \<subseteq> set always_safe \<union> {CHR ''/'', CHR ''%''}"
proof -
  have "(of_char b :: nat) div 16 < 16" using of_char_less_256[of b] by arith
  moreover have "(of_char b :: nat) mod 16 < 16" by simp
  ultimately show ?thesis
    using hex_digit_safe[of "of_char b div 16"] hex_digit_safe[of "of_char b mod 16"]
    by (auto simp add: quoter_def)
qed

lemma quote_chars:
  "set (quote_from_bytes s ''/'') \<subseteq> set always_safe \<union> {CHR ''/'', CHR ''%''}"
  using quoter_chars by (induction s) (auto simp add: quote_from_bytes_def)

lemma percent_unsafe: "CHR ''%'' \<notin> set (always_safe @ ''/'')"
  by (simp add: always_safe_def)

lemma unquote_quoter: "unquote (quoter ''/'' b @ rest) = b # unquote rest"
proof (cases "b \<in> set (always_safe @ ''/'')")
  case True
  then have "b \<noteq> CHR ''%''" using percent_unsafe by auto
  with True show ?thesis by (simp add: quoter_def)
next
  case False
  have hi: "(of_char b :: nat) div 16 < 16" using of_char_less_256[of b] by arith
  have lo: "(of_char b :: nat) mod 16 < 16" by simp
  have "char_of (16 * ((of_char b :: nat) div 16) + of_char b mod 16) = b"
    by simp
  with False show ?thesis
    by (simp add: quoter_def hex_value_hex_digit[OF hi] hex_value_hex_digit[OF lo])
qed

lemma unquote_quote: "unquote (quote_from_bytes s ''/'') = s"
  by (induction s) (simp_all add: quote_from_bytes_def unquote_quoter)

lemma quote_inj: "quote_from_bytes s ''/'' = quote_from_bytes t ''/'' \<longleftrightarrow> s = t"
  by (metis unquote_quote)

text \<open>
  C8. For an HTML path with directory part \<open>dirs\<close> under root \<open>r\<close> and file name
  \<open>name\<close>, the server serves the directory at the loopback host and the assigned port,
  and the URL given to the browser (the last argument of the command) is
  \<^verbatim>\<open>http://host:port/\<close> followed by the percent-encoded file name; the directory does
  not occur in it. (A name that cannot be encoded has no percent-encoded form: then
  \<^verbatim>\<open>quote\<close> raises and no command is run.)
\<close>

theorem export_to_pdf_url:
  "(utf8_wellformed name \<longrightarrow>
     (\<exists>outcome command.
        export_to_pdf env (PurePath r (dirs @ [name])) output_pdf wait_ms browser tr =
          (outcome,
           tr @ [Serving (path_str (PurePath r dirs)) (''127.0.0.1'', assigned_port env),
                 Ran command,
                 Shutdown (''127.0.0.1'', assigned_port env),
                 Joined 2])
        \<and> command = build_print_command browser (last command) output_pdf wait_ms
        \<and> last command = ''http://'' @ ''127.0.0.1'' @ '':'' @ format_int (int (assigned_port env))
                          @ ''/'' @ quote_from_bytes name ''/''
        \<and> quote name ''/'' = Inr (quote_from_bytes name ''/'')))
   \<and> (\<not> utf8_wellformed name \<longrightarrow>
        export_to_pdf env (PurePath r (dirs @ [name])) output_pdf wait_ms browser tr =
          (Inl UnicodeEncodeError,
           tr @ [Serving (path_str (PurePath r dirs)) (''127.0.0.1'', assigned_port env)]))"
proof (intro conjI impI)
  assume wf: "utf8_wellformed name"
  then have "utf8_wellformed (path_name (PurePath r (dirs @ [name])))"
    by (simp add: path_name_def)
  from export_to_pdf_quoted[OF this] quote_wellformed[OF wf]
  show "\<exists>outcome command.
        export_to_pdf env (PurePath r (dirs @ [name])) output_pdf wait_ms browser tr =
          (outcome,
           tr @ [Serving (path_str (PurePath r dirs)) (''127.0.0.1'', assigned_port env),
                 Ran command,
                 Shutdown (''127.0.0.1'', assigned_port env),
                 Joined 2])
        \<and> command = build_print_command browser (last command) output_pdf wait_ms
        \<and> last command = ''http://'' @ ''127.0.0.1'' @ '':'' @ format_int (int (assigned_port env))
                          @ ''/'' @ quote_from_bytes name ''/''
        \<and> quote name ''/'' = Inr (quote_from_bytes name ''/'')"
    by (simp add: Let_def path_name_def path_parent_def build_print_command_def)
next
  assume "\<not> utf8_wellformed name"
  then have "\<not> utf8_wellformed (path_name (PurePath r (dirs @ [name])))"
    by (simp add: path_name_def)
  from export_to_pdf_not_quoted[OF this]
  show "export_to_pdf env (PurePath r (dirs @ [name])) output_pdf wait_ms browser tr =
          (Inl UnicodeEncodeError,
           tr @ [Serving (path_str (PurePath r dirs)) (''127.0.0.1'', assigned_port env)])"
    by (simp add: path_parent_def)
qed

theorem export_to_pdf_url_witness:
  "\<exists>outcome command.
     export_to_pdf (example_env 0) (PurePath ''/'' [''home'', ''u'', ''my report.htm'']) report_pdf
       5000 ''/usr/bin/chromium'' [] =
       (outcome, [Serving ''/home/u'' (''127.0.0.1'', 40123), Ran command,
                  Shutdown (''127.0.0.1'', 40123), Joined 2])
     \<and> last command = ''http://127.0.0.1:40123/my%20report.htm''"
  using export_to_pdf_url[of "''my report.htm''" "example_env 0" "''/''" "[''home'', ''u'']"
      report_pdf 5000 "''/usr/bin/chromium''" "[]"] wellformed_my_report_htm
  by (auto simp add: example_env_def path_str_def format_int_40123 quote_my_report_htm)

section \<open>The default output path\<close>

lemma rfind_notin: "ch \<notin> set s \<Longrightarrow> rfind ch s = - 1"
  by (induction s) (auto simp add: Let_def)

lemma rfind_last: "ch \<notin> set ys \<Longrightarrow> rfind ch (xs @ ch # ys) = int (length xs)"
  by (induction xs) (auto simp add: Let_def rfind_notin)

lemma path_suffix_ext:
  assumes "stem \<noteq> []" "ext \<noteq> []" "CHR ''.'' \<notin> set ext"
  shows "path_suffix (PurePath r (dirs @ [stem @ ''.'' @ ext])) = ''.'' @ ext"
  using assms by (simp add: path_suffix_def path_name_def rfind_last Let_def)

lemma path_suffix_none:
  "CHR ''.'' \<notin> set name \<Longrightarrow> path_suffix (PurePath r (dirs @ [name])) = []"
  by (simp add: path_suffix_def path_name_def rfind_notin Let_def)

lemma with_suffix_pdf_ext:
  assumes "stem \<noteq> []" "ext \<noteq> []" "CHR ''.'' \<notin> set ext"
  shows "with_suffix (PurePath r (dirs @ [stem @ ''.'' @ ext])) ''.pdf'' =
           Inr (PurePath r (dirs @ [stem @ ''.pdf'']))"
  using assms path_suffix_ext[OF assms, of r dirs]
  by (simp add: with_suffix_def path_name_def Let_def)

lemma with_suffix_pdf_none:
  assumes "name \<noteq> []" "CHR ''.'' \<notin> set name"
  shows "with_suffix (PurePath r (dirs @ [name])) ''.pdf'' =
           Inr (PurePath r (dirs @ [name @ ''.pdf'']))"
  using assms path_suffix_none[of name r dirs]
  by (simp add: with_suffix_def path_name_def Let_def)

lemma with_suffix_report_htm: "with_suffix report_htm ''.pdf'' = Inr report_pdf"
  using with_suffix_pdf_ext[of "''report''" "''htm''" "''/''" "[''home'', ''u'']"]
  by (simp add: report_htm_def report_pdf_def)

text \<open>
  \<open>main\<close> hands the resolved HTML path, the output path and the browser found to the
  export.
\<close>

lemma main_unfold:
  assumes "expanduser env (arg_html_file args) = Inr expanded"
    and "resolve env expanded = Inr html_path"
    and "is_file env html_path = Inr True"
    and "main_output_pdf env args html_path = Inr output_pdf"
    and "find_browser env (arg_browser args) = Inr browser"
  shows "main env args tr = export_to_pdf env html_path output_pdf (arg_wait_ms args) browser tr"
  using assms by (simp add: main_def)

text \<open>
  C7 (amended). When no output path is given, the output path that \<open>main\<close> passes on
  is the resolved HTML path (the argument after \<^verbatim>\<open>expanduser()\<close> and \<^verbatim>\<open>resolve()\<close>,
  which makes it absolute and follows symbolic links) with the last extension of its
  file name replaced by \<^verbatim>\<open>.pdf\<close>, in the directory of the resolved path; for an
  argument \<^verbatim>\<open>report.htm\<close> that resolves to a file of that name it is \<^verbatim>\<open>report.pdf\<close>
  in the same directory.
\<close>

theorem main_default_output_pdf:
  assumes "arg_output_pdf args = None"
    and "expanduser env (arg_html_file args) = Inr expanded"
    and "resolve env expanded = Inr (PurePath r (dirs @ [stem @ ''.'' @ ext]))"
    and "is_file env (PurePath r (dirs @ [stem @ ''.'' @ ext])) = Inr True"
    and "stem \<noteq> []" and "ext \<noteq> []" and "CHR ''.'' \<notin> set ext"
    and "find_browser env (arg_browser args) = Inr browser"
    and "utf8_wellformed (stem @ ''.'' @ ext)"
  shows "\<exists>outcome url.
     main env args tr =
       (outcome,
        tr @ [Serving (path_str (PurePath r dirs)) (''127.0.0.1'', assigned_port env),
              Ran (build_print_command browser url (PurePath r (dirs @ [stem @ ''.pdf'']))
                     (arg_wait_ms args)),
              Shutdown (''127.0.0.1'', assigned_port env),
              Joined 2])"
proof -
  let ?html = "PurePath r (dirs @ [stem @ ''.'' @ ext])"
  have out: "main_output_pdf env args ?html = Inr (PurePath r (dirs @ [stem @ ''.pdf'']))"
    using assms(1) with_suffix_pdf_ext[OF assms(5-7), of r dirs]
    by (simp add: main_output_pdf_def)
  have wf: "utf8_wellformed (path_name ?html)"
    using assms(9) by (simp add: path_name_def)
  have parent: "path_parent ?html = PurePath r dirs"
    by (simp add: path_parent_def)
  show ?thesis
    unfolding main_unfold[OF assms(2) assms(3) assms(4) out assms(8)]
      export_to_pdf_quoted[OF wf] parent
    by (auto simp add: Let_def)
qed

theorem main_default_output_pdf_witness:
  "\<exists>outcome url.
     main (example_env 0)
       \<lparr>arg_html_file = parse_path ''report.htm'', arg_output_pdf = None,
        arg_browser = None, arg_wait_ms = 10000\<rparr> [] =
     (outcome,
      [Serving ''/home/u'' (''127.0.0.1'', 40123),
       Ran [''/usr/bin/chromium'', ''--headless=new'', ''--disable-gpu'', ''--no-sandbox'',
            ''--virtual-time-budget=10000'', ''--print-to-pdf=/home/u/report.pdf'', url],
       Shutdown (''127.0.0.1'', 40123), Joined 2])"
proof -
  let ?args = "\<lparr>arg_html_file = parse_path ''report.htm'', arg_output_pdf = None,
        arg_browser = None, arg_wait_ms = 10000\<rparr>"
  have parse: "parse_path ''report.htm'' = PurePath [] [''report.htm'']"
    by (simp add: parse_path_def splitroot_def)
  have a: "arg_output_pdf ?args = None" by simp
  have b: "expanduser (example_env 0) (arg_html_file ?args) = Inr (PurePath [] [''report.htm''])"
    by (simp add: example_env_def parse)
  have c: "resolve (example_env 0) (PurePath [] [''report.htm'']) =
      Inr (PurePath ''/'' ([''home'', ''u''] @ [''report'' @ ''.'' @ ''htm'']))"
    by (simp add: example_env_def)
  have d: "is_file (example_env 0) (PurePath ''/'' ([''home'', ''u''] @ [''report'' @ ''.'' @ ''htm'']))
      = Inr True"
    by (simp add: example_env_def example_files_def)
  have e: "''report'' \<noteq> []" and f: "''htm'' \<noteq> []" and g: "CHR ''.'' \<notin> set ''htm''"
    by simp_all
  have h: "find_browser (example_env 0) (arg_browser ?args) = Inr ''/usr/bin/chromium''"
    by (simp add: find_browser_def candidates_def example_env_def)
  have i: "utf8_wellformed (''report'' @ ''.'' @ ''htm'')"
    using wellformed_report_htm by simp
  have port: "assigned_port (example_env 0) = 40123"
    by (simp add: example_env_def)
  from main_default_output_pdf[OF a b c d e f g h i, of "[]"]
  show ?thesis
    by (simp add: port path_str_def build_print_command_def format_int_10000)
qed

text \<open>
  The claim as first stated, that an input named \<^verbatim>\<open>report.htm\<close> gives \<^verbatim>\<open>report.pdf\<close>
  in the same directory, fails when \<^verbatim>\<open>report.htm\<close> is a symbolic link: \<open>main\<close>
  resolves it to \<^verbatim>\<open>/store/page.html\<close> and prints to \<^verbatim>\<open>/store/page.pdf\<close>.
\<close>

theorem main_symlink_output_pdf:
  "main symlink_env
     \<lparr>arg_html_file = parse_path ''report.htm'', arg_output_pdf = None,
      arg_browser = None, arg_wait_ms = 10000\<rparr> [] =
   (Inr (),
    [Serving ''/store'' (''127.0.0.1'', 40123),
     Ran [''/usr/bin/chromium'', ''--headless=new'', ''--disable-gpu'', ''--no-sandbox'',
          ''--virtual-time-budget=10000'', ''--print-to-pdf=/store/page.pdf'',
          ''http://127.0.0.1:40123/page.html''],
     Shutdown (''127.0.0.1'', 40123), Joined 2])"
proof -
  let ?args = "\<lparr>arg_html_file = parse_path ''report.htm'', arg_output_pdf = None,
      arg_browser = None, arg_wait_ms = 10000\<rparr>"
  let ?html = "PurePath ''/'' [''store'', ''page.html'']"
  let ?pdf = "PurePath ''/'' [''store'', ''page.pdf'']"
  have parse: "parse_path ''report.htm'' = PurePath [] [''report.htm'']"
    by (simp add: parse_path_def splitroot_def)
  have b: "expanduser symlink_env (arg_html_file ?args) = Inr (PurePath [] [''report.htm''])"
    by (simp add: symlink_env_def example_env_def parse)
  have c: "resolve symlink_env (PurePath [] [''report.htm'']) = Inr ?html"
    by (simp add: symlink_env_def)
  have d: "is_file symlink_env ?html = Inr True"
    by (simp add: symlink_env_def)
  have o: "main_output_pdf symlink_env ?args ?html = Inr ?pdf"
    using with_suffix_pdf_ext[of "''page''" "''html''" "''/''" "[''store'']"]
    by (simp add: main_output_pdf_def)
  have h: "find_browser symlink_env (arg_browser ?args) = Inr ''/usr/bin/chromium''"
    by (simp add: find_browser_def candidates_def symlink_env_def example_env_def)
  have wf: "utf8_wellformed (path_name ?html)"
    by (simp add: path_name_def wellformed_page_html)
  have n: "path_name ?html = ''page.html''" "path_str (path_parent ?html) = ''/store''"
      "path_str ?pdf = ''/store/page.pdf''"
    by (simp_all add: path_name_def path_parent_def path_str_def)
  have p: "assigned_port symlink_env = 40123"
    "execute symlink_env c = Completed \<lparr>returncode = 0, stdout = ''out'', stderr = ''boom''\<rparr>" for c
    by (simp_all add: symlink_env_def example_env_def)
  show ?thesis
    unfolding main_unfold[OF b c d o h] export_to_pdf_quoted[OF wf]
    by (simp add: Let_def n p format_int_40123 format_int_10000 quote_page_html
        build_print_command_def)
qed

text \<open>A file name without an extension gets \<^verbatim>\<open>.pdf\<close> appended.\<close>

lemma main_output_pdf_no_extension:
  assumes "arg_output_pdf args = None" and "name \<noteq> []" and "CHR ''.'' \<notin> set name"
  shows "main_output_pdf env args (PurePath r (dirs @ [name])) =
           Inr (PurePath r (dirs @ [name @ ''.pdf'']))"
  using assms(1) with_suffix_pdf_none[OF assms(2,3), of r dirs]
  by (simp add: main_output_pdf_def)

text \<open>
  A whole run with \<^verbatim>\<open>--browser ./chrome\<close>: the command that is run starts with
  \<^verbatim>\<open>chrome\<close>, not with the path given.
\<close>

lemma main_runs_normalised_browser:
  "main (example_env 0)
     \<lparr>arg_html_file = report_htm, arg_output_pdf = None,
      arg_browser = Some ''./chrome'', arg_wait_ms = 10000\<rparr> []
   = (Inr (),
      [Serving ''/home/u'' (''127.0.0.1'', 40123),
       Ran [''chrome'', ''--headless=new'', ''--disable-gpu'', ''--no-sandbox'',
            ''--virtual-time-budget=10000'', ''--print-to-pdf=/home/u/report.pdf'',
            ''http://127.0.0.1:40123/report.htm''],
       Shutdown (''127.0.0.1'', 40123), Joined 2])"
proof -
  let ?args = "\<lparr>arg_html_file = report_htm, arg_output_pdf = None,
      arg_browser = Some ''./chrome'', arg_wait_ms = 10000\<rparr>"
  have b: "expanduser (example_env 0) (arg_html_file ?args) = Inr report_htm"
    by (simp add: example_env_def)
  have c: "resolve (example_env 0) report_htm = Inr report_htm"
    by (simp add: example_env_def report_htm_def)
  have f: "is_file (example_env 0) report_htm = Inr True"
    by (simp add: example_env_def example_files_def report_htm_def)
  have o: "main_output_pdf (example_env 0) ?args report_htm = Inr report_pdf"
    by (simp add: main_output_pdf_def with_suffix_report_htm)
  have h: "find_browser (example_env 0) (arg_browser ?args) = Inr ''chrome''"
    by (simp add: find_browser_def parse_path_dot_chrome example_env_def example_files_def
        path_str_def)
  have n: "path_name report_htm = ''report.htm''" "path_str (path_parent report_htm) = ''/home/u''"
    by (simp_all add: path_name_def path_parent_def path_str_def report_htm_def)
  have wf: "utf8_wellformed (path_name report_htm)"
    by (simp only: n wellformed_report_htm)
  have p: "assigned_port (example_env 0) = 40123"
    "execute (example_env 0) c = Completed \<lparr>returncode = 0, stdout = ''out'', stderr = ''boom''\<rparr>" for c
    by (simp_all add: example_env_def)
  show ?thesis
    unfolding main_unfold[OF b c f o h] export_to_pdf_quoted[OF wf]
    by (simp add: Let_def n p format_int_40123 format_int_10000 quote_report_htm
        path_str_report_pdf build_print_command_def)
qed

end
